theory Spec2Isabelle
  imports Complex_Main
begin

section \<open>Python values, errors and the builtins the helpers rely on\<close>

text \<open>
  The repository is Python 2.7 code (IronPython inside Grasshopper). Its functions
  take loosely typed values, so the model has a small universe of Python scalars.
  A float is either a finite number, modelled by the real it denotes, or one of
  the three special values. The only float operations the code performs are
  subtraction, division by 100 and comparisons; every range check is made on the
  value that is returned, after the arithmetic.
\<close>

datatype pyfloat = Fin real | PosInf | NegInf | NaN

datatype pyval = PNone | PBool bool | PInt int | PFloat pyfloat | PStr string

text \<open>
  Exceptions are values. \<open>InputException\<close> is the plain \<open>Exception\<close> that
  \<open>input_to_int\<close> raises with its "Input Error" message; \<open>LibraryError\<close> is anything
  raised inside the external unit library or the honeybee string cleaners.
\<close>

datatype error = IndexError | KeyError | ValueError | TypeError | InputException
  | LibraryError string

subsection \<open>Float comparison and arithmetic\<close>

fun flt :: "pyfloat \<Rightarrow> pyfloat \<Rightarrow> bool" where
  "flt NaN _ = False"
| "flt _ NaN = False"
| "flt (Fin a) (Fin b) = (a < b)"
| "flt (Fin _) PosInf = True"
| "flt (Fin _) NegInf = False"
| "flt PosInf _ = False"
| "flt NegInf NegInf = False"
| "flt NegInf _ = True"

fun fle :: "pyfloat \<Rightarrow> pyfloat \<Rightarrow> bool" where
  "fle NaN _ = False"
| "fle _ NaN = False"
| "fle (Fin a) (Fin b) = (a \<le> b)"
| "fle (Fin _) PosInf = True"
| "fle (Fin _) NegInf = False"
| "fle PosInf PosInf = True"
| "fle PosInf _ = False"
| "fle NegInf _ = True"

fun fsub :: "pyfloat \<Rightarrow> pyfloat \<Rightarrow> pyfloat" where
  "fsub NaN _ = NaN"
| "fsub _ NaN = NaN"
| "fsub (Fin a) (Fin b) = Fin (a - b)"
| "fsub (Fin _) PosInf = NegInf"
| "fsub (Fin _) NegInf = PosInf"
| "fsub PosInf PosInf = NaN"
| "fsub PosInf _ = PosInf"
| "fsub NegInf NegInf = NaN"
| "fsub NegInf _ = NegInf"

text \<open>Division by a positive finite constant, as in \<open>new_value / 100\<close>.\<close>

fun fdiv_const :: "pyfloat \<Rightarrow> real \<Rightarrow> pyfloat" where
  "fdiv_const (Fin a) c = Fin (a / c)"
| "fdiv_const x c = x"

subsection \<open>Truthiness\<close>

fun py_truthy :: "pyval \<Rightarrow> bool" where
  "py_truthy PNone = False"
| "py_truthy (PBool b) = b"
| "py_truthy (PInt i) = (i \<noteq> 0)"
| "py_truthy (PFloat f) = (f \<noteq> Fin 0)"
| "py_truthy (PStr s) = (s \<noteq> [])"

subsection \<open>Decimal digits\<close>

definition is_digit :: "char \<Rightarrow> bool" where
  "is_digit c = (c \<in> set ''0123456789'')"

text \<open>The value of a digit is its position in the string of the ten digits.\<close>

fun position_in :: "'a \<Rightarrow> 'a list \<Rightarrow> nat" where
  "position_in x [] = 0"
| "position_in x (y # ys) = (if x = y then 0 else Suc (position_in x ys))"

definition digit_val :: "char \<Rightarrow> nat" where
  "digit_val c = position_in c ''0123456789''"

definition digits_val :: "string \<Rightarrow> nat" where
  "digits_val s = foldl (\<lambda>acc c. 10 * acc + digit_val c) 0 s"

fun nat_to_digits :: "nat \<Rightarrow> string" where
  "nat_to_digits n =
     (if n < 10 then [''0123456789'' ! n]
      else nat_to_digits (n div 10) @ [''0123456789'' ! (n mod 10)])"

declare nat_to_digits.simps [simp del]

definition int_to_str :: "int \<Rightarrow> string" where
  "int_to_str i = (if i < 0 then CHR ''-'' # nat_to_digits (nat (- i)) else nat_to_digits (nat i))"

subsection \<open>\<open>int(...)\<close>, \<open>float(...)\<close> and \<open>str(...)\<close>\<close>

definition is_space :: "char \<Rightarrow> bool" where
  "is_space c = (c \<in> set [CHR '' '', CHR 0x09, CHR 0x0A, CHR 0x0B, CHR 0x0C, CHR 0x0D])"

definition strip :: "string \<Rightarrow> string" where
  "strip s = rev (dropWhile is_space (rev (dropWhile is_space s)))"

text \<open>
  \<open>int\<close> of a string: surrounding whitespace is dropped, one sign is allowed, and the
  rest must be a non-empty run of decimal digits. \<open>None\<close> stands for the ValueError.
\<close>

definition unsigned_of_str :: "string \<Rightarrow> nat option" where
  "unsigned_of_str s = (if s \<noteq> [] \<and> list_all is_digit s then Some (digits_val s) else None)"

definition int_of_str :: "string \<Rightarrow> int option" where
  "int_of_str s =
     (case strip s of
        [] \<Rightarrow> None
      | c # r \<Rightarrow>
          if c = CHR ''-'' then map_option (\<lambda>n. - int n) (unsigned_of_str r)
          else if c = CHR ''+'' then map_option int (unsigned_of_str r)
          else map_option int (unsigned_of_str (c # r)))"

text \<open>
  \<open>int(x)\<close>: \<open>None\<close> stands for the TypeError, ValueError or OverflowError that the
  validators' bare \<open>except\<close> clauses catch alike. A float is truncated towards zero.
\<close>

fun py_int :: "pyval \<Rightarrow> int option" where
  "py_int PNone = None"
| "py_int (PBool b) = Some (if b then 1 else 0)"
| "py_int (PInt i) = Some i"
| "py_int (PFloat (Fin r)) = Some (if 0 \<le> r then \<lfloor>r\<rfloor> else \<lceil>r\<rceil>)"
| "py_int (PFloat _) = None"
| "py_int (PStr s) = int_of_str s"

text \<open>
  The parts of the Python runtime and of the external libraries that the repository
  calls but does not contain are parameters:
  \<^item> \<open>str_to_float\<close>: \<open>float\<close> applied to a string (\<open>None\<close> for its ValueError);
  \<^item> \<open>float_to_str\<close>: \<open>str\<close> applied to a float;
  \<^item> \<open>parse_input\<close>: \<open>ph_units.parser.parse_input\<close>, from a string to a magnitude and
    an optional unit token;
  \<^item> \<open>convert\<close>: \<open>ph_units.converter.convert(value, from_unit, to_unit)\<close>;
  \<^item> \<open>clean_ep_string\<close>, \<open>clean_and_id_ep_string\<close>: the honeybee string cleaners.
\<close>

record env =
  str_to_float :: "string \<Rightarrow> pyfloat option"
  float_to_str :: "pyfloat \<Rightarrow> string"
  parse_input :: "string \<Rightarrow> error + (pyval \<times> string option)"
  convert :: "pyfloat \<Rightarrow> string \<Rightarrow> string \<Rightarrow> error + pyfloat"
  clean_ep_string :: "string \<Rightarrow> error + string"
  clean_and_id_ep_string :: "pyval \<Rightarrow> error + string"

text \<open>
  \<open>float(x)\<close>: \<open>None\<close> stands for the TypeError, ValueError or OverflowError. An
  integer converts when it rounds to a finite double, that is, when its magnitude
  is below \<open>2^1024 - 2^970\<close>; the rounding itself is not modelled.
\<close>

definition float_int_bound :: int where
  "float_int_bound = 2 ^ 1024 - 2 ^ 970"

fun py_float :: "env \<Rightarrow> pyval \<Rightarrow> pyfloat option" where
  "py_float E PNone = None"
| "py_float E (PBool b) = Some (Fin (if b then 1 else 0))"
| "py_float E (PInt i) = (if \<bar>i\<bar> < float_int_bound then Some (Fin (of_int i)) else None)"
| "py_float E (PFloat f) = Some f"
| "py_float E (PStr s) = str_to_float E s"

fun py_str :: "env \<Rightarrow> pyval \<Rightarrow> string" where
  "py_str E PNone = ''None''"
| "py_str E (PBool b) = (if b then ''True'' else ''False'')"
| "py_str E (PInt i) = int_to_str i"
| "py_str E (PFloat f) = float_to_str E f"
| "py_str E (PStr s) = s"

section \<open>input\_tools.py\<close>

subsection \<open>\<open>input_to_int\<close>\<close>

text \<open>
  \<open>re.search(r"\d+", s)\<close>: the leftmost match of one or more digits, and \<open>+\<close> is
  greedy, so the match is the first maximal run of digits. \<open>None\<close> when there is none.
\<close>

definition re_search_digits :: "string \<Rightarrow> string option" where
  "re_search_digits s =
     (let m = takeWhile is_digit (dropWhile (\<lambda>c. \<not> is_digit c) s)
      in if m = [] then None else Some m)"

text \<open>
  The \<open>try\<close> block raises ValueError when there is no match, and \<open>int\<close> may raise it;
  the handler turns a ValueError into the plain exception with the input-error
  message. The second handler (AttributeError) cannot be reached, since a missing
  match has already raised.
\<close>

definition input_to_int :: "env \<Rightarrow> pyval \<Rightarrow> pyval \<Rightarrow> error + pyval" where
  "input_to_int E input_value default_val =
     (if \<not> py_truthy input_value then Inr default_val
      else
        case (case re_search_digits (py_str E input_value) of
                None \<Rightarrow> Inl ValueError
              | Some g \<Rightarrow> (case int_of_str g of
                             None \<Rightarrow> Inl ValueError
                           | Some n \<Rightarrow> Inr (PInt n))) of
          Inr v \<Rightarrow> Inr v
        | Inl e \<Rightarrow> if e = ValueError then Inl InputException else Inl e)"

subsection \<open>\<open>clean_get\<close> and \<open>cleaner_get\<close>\<close>

text \<open>
  \<open>_list[_i]\<close> on a Python list with an integer index: indices from \<open>-len\<close> up to
  \<open>len - 1\<close> are valid, the negative ones counting from the end; any other index
  raises IndexError.
\<close>

definition list_getitem :: "'a list \<Rightarrow> int \<Rightarrow> error + 'a" where
  "list_getitem xs i =
     (if 0 \<le> i \<and> i < int (length xs) then Inr (xs ! nat i)
      else if i < 0 \<and> - int (length xs) \<le> i then Inr (xs ! nat (int (length xs) + i))
      else Inl IndexError)"

text \<open>Both functions have the same body; only IndexError is caught.\<close>

definition clean_get :: "'a list \<Rightarrow> int \<Rightarrow> 'a \<Rightarrow> error + 'a" where
  "clean_get xs i default_val =
     (case list_getitem xs i of
        Inr v \<Rightarrow> Inr v
      | Inl e \<Rightarrow>
          if e = IndexError then
            (case list_getitem xs 0 of
               Inr v \<Rightarrow> Inr v
             | Inl e' \<Rightarrow> if e' = IndexError then Inr default_val else Inl e')
          else Inl e)"

definition cleaner_get :: "'a list \<Rightarrow> int \<Rightarrow> 'a \<Rightarrow> error + 'a" where
  "cleaner_get xs i default_val =
     (case list_getitem xs i of
        Inr v \<Rightarrow> Inr v
      | Inl e \<Rightarrow>
          if e = IndexError then
            (case list_getitem xs 0 of
               Inr v \<Rightarrow> Inr v
             | Inl e' \<Rightarrow> if e' = IndexError then Inr default_val else Inl e')
          else Inl e)"

subsection \<open>\<open>memoize\<close>\<close>

text \<open>
  The host's \<open>sticky\<close> dictionary is process-wide state. A session holds it together
  with whatever else the wrapped function can read or change. The wrapped function
  is any state transformer that returns a value or raises; it may itself write to
  \<open>sticky\<close>, as the recursive example of the docstring does. Keys are the tuples of
  positional arguments, taken here from any type with equality (hashable values).

  A call of the wrapper returns its result, the new session, and the list of
  invocations of the wrapped function that the wrapper made during the call, each
  with the positional and keyword arguments it passed.
\<close>

record ('k, 'v, 'w) session =
  sticky :: "'k \<rightharpoonup> 'v"
  outside :: 'w

type_synonym ('k, 'kw, 'v, 'w) pyfunc =
  "'k \<Rightarrow> 'kw \<Rightarrow> ('k, 'v, 'w) session \<Rightarrow> (error + 'v) \<times> ('k, 'v, 'w) session"

definition wrapper ::
  "('k, 'kw, 'v, 'w) pyfunc \<Rightarrow> 'k \<Rightarrow> 'kw \<Rightarrow> ('k, 'v, 'w) session
     \<Rightarrow> (error + 'v) \<times> ('k \<times> 'kw) list \<times> ('k, 'v, 'w) session" where
  "wrapper func args kwargs s =
     (case sticky s args of
        Some v \<Rightarrow> (Inr v, [], s)
      | None \<Rightarrow>
          (case func args kwargs s of
             (Inl e, s') \<Rightarrow> (Inl e, [(args, kwargs)], s')
           | (Inr rv, s') \<Rightarrow> (Inr rv, [(args, kwargs)], s'\<lparr>sticky := (sticky s')(args \<mapsto> rv)\<rparr>)))"

section \<open>validators.py\<close>

text \<open>
  A descriptor object: the name under which the value is stored on the instance,
  the configured default (\<open>PNone\<close> when none was given) and the subclass, which
  selects the \<open>validate\<close> method.
\<close>

datatype validator =
    NotNone | HBName
  | IntegerNonZero | IntegerPositiveValueOrZero
  | Float | FloatNonZero | FloatPositiveValue | FloatPercentage | FloatMax24
  | UnitM | UnitM2 | UnitMM | UnitW_MK | UnitW_M2K | UnitW_K | UnitDeltaC | UnitDegreeC
  | UnitMeterPerSecond | UnitWH_M3 | UnitKWH | UnitKWH_M2 | UnitW_M2 | UnitM3_S | UnitKW
  | UnitW | UnitKG_M2 | UnitCost_M2 | UnitCost_KWH

record descriptor =
  storage_name :: string
  default_val :: pyval
  kind :: validator

subsection \<open>Plain validators\<close>

text \<open>
  Every \<open>validate\<close> takes the descriptor, the attribute name (used in messages only),
  the new value and the old value, and returns a value or raises. The messages of
  the errors are not modelled.
\<close>

definition NotNone_validate ::
  "env \<Rightarrow> descriptor \<Rightarrow> string \<Rightarrow> pyval \<Rightarrow> pyval \<Rightarrow> error + pyval" where
  "NotNone_validate E self name new_value old_value =
     (if new_value \<noteq> PNone then Inr new_value
      else if old_value \<noteq> PNone then Inr old_value
      else Inl ValueError)"

definition HBName_validate ::
  "env \<Rightarrow> descriptor \<Rightarrow> string \<Rightarrow> pyval \<Rightarrow> pyval \<Rightarrow> error + pyval" where
  "HBName_validate E self name new_value old_value =
     (if new_value = PNone then
        (case clean_and_id_ep_string E (default_val self) of
           Inr s \<Rightarrow> Inr (PStr s)
         | Inl e \<Rightarrow> Inr old_value)
      else
        case clean_ep_string E
               (map (\<lambda>c. if c = CHR '' '' then CHR ''_'' else c) (strip (py_str E new_value))) of
          Inl e \<Rightarrow> Inl e
        | Inr s \<Rightarrow> if s = [] then Inl ValueError else Inr (PStr s))"

definition IntegerNonZero_validate ::
  "env \<Rightarrow> descriptor \<Rightarrow> string \<Rightarrow> pyval \<Rightarrow> pyval \<Rightarrow> error + pyval" where
  "IntegerNonZero_validate E self name new_value old_value =
     (if new_value = PNone then
        (case py_int (default_val self) of
           Some d \<Rightarrow> Inr (PInt d)
         | None \<Rightarrow> Inr old_value)
      else
        case py_int new_value of
          None \<Rightarrow> Inl ValueError
        | Some n \<Rightarrow> if n < 1 then Inl ValueError else Inr (PInt n))"

definition IntegerPositiveValueOrZero_validate ::
  "env \<Rightarrow> descriptor \<Rightarrow> string \<Rightarrow> pyval \<Rightarrow> pyval \<Rightarrow> error + pyval" where
  "IntegerPositiveValueOrZero_validate E self name new_value old_value =
     (if new_value = PNone then
        (case py_int (default_val self) of
           Some d \<Rightarrow> Inr (PInt d)
         | None \<Rightarrow> Inr old_value)
      else
        case py_int new_value of
          None \<Rightarrow> Inl ValueError
        | Some n \<Rightarrow> if n < 0 then Inl ValueError else Inr (PInt n))"

definition Float_validate ::
  "env \<Rightarrow> descriptor \<Rightarrow> string \<Rightarrow> pyval \<Rightarrow> pyval \<Rightarrow> error + pyval" where
  "Float_validate E self name new_value old_value =
     (if new_value = PNone then
        (case py_float E (default_val self) of
           Some d \<Rightarrow> Inr (PFloat d)
         | None \<Rightarrow> Inr old_value)
      else
        case py_float E new_value of
          None \<Rightarrow> Inl ValueError
        | Some v \<Rightarrow> Inr (PFloat v))"

text \<open>
  The class attribute \<open>tolerance = 0.0001\<close> of \<open>FloatNonZero\<close>. The literal denotes the
  double nearest to \<open>1/10000\<close>, and no double lies between the two, so a double is
  below the one exactly when it is below the other.
\<close>

definition FloatNonZero_tolerance :: pyfloat where
  "FloatNonZero_tolerance = Fin (1 / 10000)"

definition FloatNonZero_validate ::
  "env \<Rightarrow> descriptor \<Rightarrow> string \<Rightarrow> pyval \<Rightarrow> pyval \<Rightarrow> error + pyval" where
  "FloatNonZero_validate E self name new_value old_value =
     (if new_value = PNone then
        (case py_float E (default_val self) of
           Some d \<Rightarrow> Inr (PFloat d)
         | None \<Rightarrow> Inr old_value)
      else
        case py_float E new_value of
          None \<Rightarrow> Inl ValueError
        | Some v \<Rightarrow>
            if flt (fsub v (Fin 0)) FloatNonZero_tolerance then Inl ValueError
            else Inr (PFloat v))"

definition FloatPositiveValue_validate ::
  "env \<Rightarrow> descriptor \<Rightarrow> string \<Rightarrow> pyval \<Rightarrow> pyval \<Rightarrow> error + pyval" where
  "FloatPositiveValue_validate E self name new_value old_value =
     (if new_value = PNone then
        (case py_float E (default_val self) of
           Some d \<Rightarrow> Inr (PFloat d)
         | None \<Rightarrow> Inr old_value)
      else
        case py_float E new_value of
          None \<Rightarrow> Inl ValueError
        | Some v \<Rightarrow> if flt v (Fin 0) then Inl ValueError else Inr (PFloat v))"

definition FloatPercentage_validate ::
  "env \<Rightarrow> descriptor \<Rightarrow> string \<Rightarrow> pyval \<Rightarrow> pyval \<Rightarrow> error + pyval" where
  "FloatPercentage_validate E self name new_value old_value =
     (if new_value = PNone then
        (case py_float E (default_val self) of
           Some d \<Rightarrow> Inr (PFloat d)
         | None \<Rightarrow> Inr old_value)
      else
        case py_float E new_value of
          None \<Rightarrow> Inl ValueError
        | Some v \<Rightarrow>
            (let v' = (if flt (Fin 1) v \<and> flt v (Fin 100) then fdiv_const v 100 else v)
             in if \<not> (fle (Fin 0) v' \<and> fle v' (Fin 1)) then Inl ValueError
                else Inr (PFloat v')))"

definition FloatMax24_tolerance :: pyfloat where
  "FloatMax24_tolerance = Fin (- (1 / 10000))"

definition FloatMax24_validate ::
  "env \<Rightarrow> descriptor \<Rightarrow> string \<Rightarrow> pyval \<Rightarrow> pyval \<Rightarrow> error + pyval" where
  "FloatMax24_validate E self name new_value old_value =
     (if new_value = PNone then
        (case py_float E (default_val self) of
           Some d \<Rightarrow> Inr (PFloat d)
         | None \<Rightarrow> Inr old_value)
      else
        case py_float E new_value of
          None \<Rightarrow> Inl ValueError
        | Some v \<Rightarrow>
            if flt (fsub (Fin 24) v) FloatMax24_tolerance then Inl ValueError
            else Inr (PFloat v))"

subsection \<open>Unit validators\<close>

text \<open>
  The unit validators have one body, up to the canonical unit string and to whether
  the converted result is checked for its sign. \<open>unit_or\<close> is
  \<open>input_units or "<unit>"\<close>: an absent or empty unit token gives the canonical unit.
  \<open>unit_convert\<close> is the common middle part: parse the string form, make the
  magnitude a float, convert. Errors of the parser and of the converter are outside
  every \<open>try\<close> and propagate. The \<open>print\<close> of the conversion writes to standard
  output and is not modelled.
\<close>

definition unit_or :: "string option \<Rightarrow> string \<Rightarrow> string" where
  "unit_or input_units unit =
     (case input_units of
        None \<Rightarrow> unit
      | Some u \<Rightarrow> if u = [] then unit else u)"

definition unit_convert :: "env \<Rightarrow> string \<Rightarrow> pyval \<Rightarrow> error + pyfloat" where
  "unit_convert E unit new_value =
     (case parse_input E (py_str E new_value) of
        Inl e \<Rightarrow> Inl e
      | Inr (input_value, input_units) \<Rightarrow>
          (case py_float E input_value of
             None \<Rightarrow> Inl ValueError
           | Some x \<Rightarrow> convert E x (unit_or input_units unit) unit))"

text \<open>The body of the validators that return the converted result as it is.\<close>

definition unit_validate_any ::
  "string \<Rightarrow> env \<Rightarrow> descriptor \<Rightarrow> string \<Rightarrow> pyval \<Rightarrow> pyval \<Rightarrow> error + pyval" where
  "unit_validate_any unit E self name new_value old_value =
     (if new_value = PNone then
        (case py_float E (default_val self) of
           Some d \<Rightarrow> Inr (PFloat d)
         | None \<Rightarrow> Inr old_value)
      else
        case unit_convert E unit new_value of
          Inl e \<Rightarrow> Inl e
        | Inr result \<Rightarrow> Inr (PFloat result))"

text \<open>
  The body of the validators that end with
  \<open>if result and result < 0.0: raise ValueError\<close>.
\<close>

definition unit_validate_positive ::
  "string \<Rightarrow> env \<Rightarrow> descriptor \<Rightarrow> string \<Rightarrow> pyval \<Rightarrow> pyval \<Rightarrow> error + pyval" where
  "unit_validate_positive unit E self name new_value old_value =
     (if new_value = PNone then
        (case py_float E (default_val self) of
           Some d \<Rightarrow> Inr (PFloat d)
         | None \<Rightarrow> Inr old_value)
      else
        case unit_convert E unit new_value of
          Inl e \<Rightarrow> Inl e
        | Inr result \<Rightarrow>
            if py_truthy (PFloat result) \<and> flt result (Fin 0) then Inl ValueError
            else Inr (PFloat result))"

definition UnitM_validate where "UnitM_validate = unit_validate_any ''M''"
definition UnitM2_validate where "UnitM2_validate = unit_validate_any ''M2''"
definition UnitMM_validate where "UnitMM_validate = unit_validate_any ''MM''"
definition UnitW_MK_validate where "UnitW_MK_validate = unit_validate_any ''W/MK''"
definition UnitW_M2K_validate where "UnitW_M2K_validate = unit_validate_positive ''W/M2K''"
definition UnitW_K_validate where "UnitW_K_validate = unit_validate_positive ''W/K''"
definition UnitDeltaC_validate where "UnitDeltaC_validate = unit_validate_any ''DELTA-C''"
definition UnitDegreeC_validate where "UnitDegreeC_validate = unit_validate_any ''C''"
definition UnitMeterPerSecond_validate where
  "UnitMeterPerSecond_validate = unit_validate_any ''M/S''"
definition UnitWH_M3_validate where "UnitWH_M3_validate = unit_validate_positive ''WH/M3''"
definition UnitKWH_validate where "UnitKWH_validate = unit_validate_positive ''KWH''"
definition UnitKWH_M2_validate where "UnitKWH_M2_validate = unit_validate_positive ''KWH/M2''"
definition UnitW_M2_validate where "UnitW_M2_validate = unit_validate_positive ''W/M2''"
definition UnitM3_S_validate where "UnitM3_S_validate = unit_validate_positive ''M3/S''"
definition UnitKW_validate where "UnitKW_validate = unit_validate_positive ''KW''"
definition UnitW_validate where "UnitW_validate = unit_validate_positive ''W''"
definition UnitKG_M2_validate where "UnitKG_M2_validate = unit_validate_any ''KG/M2''"
definition UnitCost_M2_validate where "UnitCost_M2_validate = unit_validate_any ''COST/M2''"

text \<open>
  \<open>UnitCost_KWH.validate\<close> is the last method of the file. Its text ends with the
  \<open>print\<close> of the conversion: there is no \<open>return\<close> statement after it, so a call
  that gets that far returns \<open>None\<close>.
\<close>

definition UnitCost_KWH_validate ::
  "env \<Rightarrow> descriptor \<Rightarrow> string \<Rightarrow> pyval \<Rightarrow> pyval \<Rightarrow> error + pyval" where
  "UnitCost_KWH_validate E self name new_value old_value =
     (if new_value = PNone then
        (case py_float E (default_val self) of
           Some d \<Rightarrow> Inr (PFloat d)
         | None \<Rightarrow> Inr old_value)
      else
        case unit_convert E ''COST/KWH'' new_value of
          Inl e \<Rightarrow> Inl e
        | Inr result \<Rightarrow> Inr PNone)"

subsection \<open>The descriptor protocol\<close>

text \<open>Method dispatch: \<open>self.validate\<close> is the method of the descriptor's class.\<close>

definition validate ::
  "env \<Rightarrow> descriptor \<Rightarrow> string \<Rightarrow> pyval \<Rightarrow> pyval \<Rightarrow> error + pyval" where
  "validate E self =
     (case kind self of
        NotNone \<Rightarrow> NotNone_validate E self
      | HBName \<Rightarrow> HBName_validate E self
      | IntegerNonZero \<Rightarrow> IntegerNonZero_validate E self
      | IntegerPositiveValueOrZero \<Rightarrow> IntegerPositiveValueOrZero_validate E self
      | Float \<Rightarrow> Float_validate E self
      | FloatNonZero \<Rightarrow> FloatNonZero_validate E self
      | FloatPositiveValue \<Rightarrow> FloatPositiveValue_validate E self
      | FloatPercentage \<Rightarrow> FloatPercentage_validate E self
      | FloatMax24 \<Rightarrow> FloatMax24_validate E self
      | UnitM \<Rightarrow> UnitM_validate E self
      | UnitM2 \<Rightarrow> UnitM2_validate E self
      | UnitMM \<Rightarrow> UnitMM_validate E self
      | UnitW_MK \<Rightarrow> UnitW_MK_validate E self
      | UnitW_M2K \<Rightarrow> UnitW_M2K_validate E self
      | UnitW_K \<Rightarrow> UnitW_K_validate E self
      | UnitDeltaC \<Rightarrow> UnitDeltaC_validate E self
      | UnitDegreeC \<Rightarrow> UnitDegreeC_validate E self
      | UnitMeterPerSecond \<Rightarrow> UnitMeterPerSecond_validate E self
      | UnitWH_M3 \<Rightarrow> UnitWH_M3_validate E self
      | UnitKWH \<Rightarrow> UnitKWH_validate E self
      | UnitKWH_M2 \<Rightarrow> UnitKWH_M2_validate E self
      | UnitW_M2 \<Rightarrow> UnitW_M2_validate E self
      | UnitM3_S \<Rightarrow> UnitM3_S_validate E self
      | UnitKW \<Rightarrow> UnitKW_validate E self
      | UnitW \<Rightarrow> UnitW_validate E self
      | UnitKG_M2 \<Rightarrow> UnitKG_M2_validate E self
      | UnitCost_M2 \<Rightarrow> UnitCost_M2_validate E self
      | UnitCost_KWH \<Rightarrow> UnitCost_KWH_validate E self)"



subsection \<open>The acceptance rules\<close>





fun sign_checked :: "validator \<Rightarrow> bool" where
  "sign_checked UnitW_M2K = True"
| "sign_checked UnitW_K = True"
| "sign_checked UnitWH_M3 = True"
| "sign_checked UnitKWH = True"
| "sign_checked UnitKWH_M2 = True"
| "sign_checked UnitW_M2 = True"
| "sign_checked UnitM3_S = True"
| "sign_checked UnitKW = True"
| "sign_checked UnitW = True"
| "sign_checked k = False"


text \<open>The canonical unit string of each unit validator; empty for the other classes.\<close>

fun canonical_unit :: "validator \<Rightarrow> string" where
  "canonical_unit UnitM = ''M''"
| "canonical_unit UnitM2 = ''M2''"
| "canonical_unit UnitMM = ''MM''"
| "canonical_unit UnitW_MK = ''W/MK''"
| "canonical_unit UnitW_M2K = ''W/M2K''"
| "canonical_unit UnitW_K = ''W/K''"
| "canonical_unit UnitDeltaC = ''DELTA-C''"
| "canonical_unit UnitDegreeC = ''C''"
| "canonical_unit UnitMeterPerSecond = ''M/S''"
| "canonical_unit UnitWH_M3 = ''WH/M3''"
| "canonical_unit UnitKWH = ''KWH''"
| "canonical_unit UnitKWH_M2 = ''KWH/M2''"
| "canonical_unit UnitW_M2 = ''W/M2''"
| "canonical_unit UnitM3_S = ''M3/S''"
| "canonical_unit UnitKW = ''KW''"
| "canonical_unit UnitW = ''W''"
| "canonical_unit UnitKG_M2 = ''KG/M2''"
| "canonical_unit UnitCost_M2 = ''COST/M2''"
| "canonical_unit UnitCost_KWH = ''COST/KWH''"
| "canonical_unit k = []"

subsection \<open>A small concrete environment\<close>

text \<open>
  For evaluating the definitions on concrete inputs: floats are read from and
  printed as integer literals, the parser splits the magnitude from the unit token
  at the first blank, and the converter knows feet and millimetres to metres
  besides the identity.
\<close>

definition sample_convert :: "pyfloat \<Rightarrow> string \<Rightarrow> string \<Rightarrow> error + pyfloat" where
  "sample_convert v from_unit to_unit =
     (if from_unit = to_unit then Inr v
      else if from_unit = ''FT'' \<and> to_unit = ''M'' then
        Inr (case v of Fin r \<Rightarrow> Fin (r * (3048 / 10000)) | x \<Rightarrow> x)
      else if from_unit = ''MM'' \<and> to_unit = ''M'' then Inr (fdiv_const v 1000)
      else Inl (LibraryError ''unit''))"

definition sample_parse :: "string \<Rightarrow> error + (pyval \<times> string option)" where
  "sample_parse s =
     (let magnitude = takeWhile (\<lambda>c. c \<noteq> CHR '' '') s;
          token = drop 1 (dropWhile (\<lambda>c. c \<noteq> CHR '' '') s)
      in Inr (PStr magnitude, if token = [] then None else Some token))"

definition sample_env :: env where
  "sample_env =
     \<lparr> str_to_float = (\<lambda>s. map_option (\<lambda>n. Fin (of_int n)) (int_of_str s)),
       float_to_str = (\<lambda>f. case f of Fin r \<Rightarrow> int_to_str \<lfloor>r\<rfloor> | PosInf \<Rightarrow> ''inf''
                              | NegInf \<Rightarrow> ''-inf'' | NaN \<Rightarrow> ''nan''),
       parse_input = sample_parse,
       convert = sample_convert,
       clean_ep_string = Inr,
       clean_and_id_ep_string =
         (\<lambda>v. case v of PStr s \<Rightarrow> Inr (s @ ''_id'') | x \<Rightarrow> Inl TypeError) \<rparr>"

subsection \<open>Derived operations used in the statements\<close>

text \<open>
  Two successive calls of a memoized function with the same positional arguments:
  the two results, the invocations of the wrapped function over both calls, and the
  final session.
\<close>

definition two_calls ::
  "('k, 'kw, 'v, 'w) pyfunc \<Rightarrow> 'k \<Rightarrow> 'kw \<Rightarrow> 'kw \<Rightarrow> ('k, 'v, 'w) session
     \<Rightarrow> (error + 'v) \<times> (error + 'v) \<times> ('k \<times> 'kw) list \<times> ('k, 'v, 'w) session" where
  "two_calls func args kwargs1 kwargs2 s =
     (case wrapper func args kwargs1 s of
        (r1, log1, s1) \<Rightarrow>
          (case wrapper func args kwargs2 s1 of
             (r2, log2, s2) \<Rightarrow> (r1, r2, log1 @ log2, s2)))"

text \<open>
  A function to memoize, for concrete runs: it adds up its positional and keyword
  arguments and the number of times it has been invoked so far, which it keeps
  outside the cache. Its result therefore changes from one invocation to the next.
\<close>

definition demo_func :: "(int list, (string \<times> int) list, int, nat) pyfunc" where
  "demo_func args kwargs s =
     (Inr (sum_list args + sum_list (map snd kwargs) + int (outside s)),
      s\<lparr>outside := Suc (outside s)\<rparr>)"

definition cold_session :: "(int list, int, nat) session" where
  "cold_session = \<lparr>sticky = Map.empty, outside = 0\<rparr>"

definition warm_session :: "(int list, int, nat) session" where
  "warm_session = \<lparr>sticky = [[1, 2] \<mapsto> 7], outside = 0\<rparr>"

text \<open>
  A function that raises on its first invocation and behaves like \<open>demo_func\<close>
  afterwards.
\<close>

definition flaky_func :: "(int list, (string \<times> int) list, int, nat) pyfunc" where
  "flaky_func args kwargs s =
     (if outside s = 0 then (Inl ValueError, s\<lparr>outside := 1\<rparr>)
      else demo_func args kwargs s)"


text \<open>
  The coercion that each class applies to its configured default when the new value
  is \<open>None\<close>: \<open>int\<close> for the integer classes, the honeybee cleaner for \<open>HBName\<close>,
  \<open>float\<close> for all the others; \<open>NotNone\<close> has no default step. \<open>None\<close> when the
  coercion raises.
\<close>

fun coerce_default :: "env \<Rightarrow> validator \<Rightarrow> pyval \<Rightarrow> pyval option" where
  "coerce_default E NotNone d = None"
| "coerce_default E HBName d =
     (case clean_and_id_ep_string E d of Inr s \<Rightarrow> Some (PStr s) | Inl e \<Rightarrow> None)"
| "coerce_default E IntegerNonZero d = map_option PInt (py_int d)"
| "coerce_default E IntegerPositiveValueOrZero d = map_option PInt (py_int d)"
| "coerce_default E k d = map_option PFloat (py_float E d)"

section \<open>Properties of input\_tools.py\<close>

subsection \<open>The selection-tag parser\<close>

lemma digit_not_space: "is_digit c \<Longrightarrow> \<not> is_space c"
  by (auto simp: is_digit_def is_space_def)

lemma digit_not_sign: "is_digit c \<Longrightarrow> c \<noteq> CHR ''-'' \<and> c \<noteq> CHR ''+''"
  by (auto simp: is_digit_def)

lemma strip_digits:
  assumes "run \<noteq> []" and "\<forall>c\<in>set run. is_digit c"
  shows "strip run = run"
proof -
  from assms have first_char: "\<not> is_space (hd run)"
    by (simp add: digit_not_space)
  from assms have last_char: "\<not> is_space (hd (rev run))"
    by (simp add: digit_not_space hd_rev)
  from assms(1) first_char have "dropWhile is_space run = run"
    by (cases run) simp_all
  moreover from assms(1) last_char have "dropWhile is_space (rev run) = rev run"
    by (cases "rev run") simp_all
  ultimately show ?thesis
    by (simp add: strip_def)
qed

lemma int_of_str_digits:
  assumes "run \<noteq> []" and "\<forall>c\<in>set run. is_digit c"
  shows "int_of_str run = Some (int (digits_val run))"
proof -
  from assms obtain c r where run: "run = c # r"
    by (cases run) auto
  with assms have "is_digit c" by simp
  then have sign: "c \<noteq> CHR ''-''" "c \<noteq> CHR ''+''"
    by (simp_all add: digit_not_sign)
  from assms have "unsigned_of_str run = Some (digits_val run)"
    by (simp add: unsigned_of_str_def list_all_iff)
  moreover have "strip run = run"
    by (rule strip_digits [OF assms])
  ultimately show ?thesis
    using sign run by (simp add: int_of_str_def)
qed

lemma re_search_run:
  assumes "\<forall>c\<in>set pre. \<not> is_digit c" and "run \<noteq> []" and "\<forall>c\<in>set run. is_digit c"
    and "post = [] \<or> \<not> is_digit (hd post)"
  shows "re_search_digits (pre @ run @ post) = Some run"
proof -
  from assms(1) have "dropWhile (\<lambda>c. \<not> is_digit c) (pre @ run @ post)
      = dropWhile (\<lambda>c. \<not> is_digit c) (run @ post)"
    by simp
  also from assms(2,3) have "\<dots> = run @ post"
    by (cases run) simp_all
  finally have skipped: "dropWhile (\<lambda>c. \<not> is_digit c) (pre @ run @ post) = run @ post" .
  from assms(4) have "takeWhile is_digit post = []"
    by (cases post) simp_all
  with assms(3) have "takeWhile is_digit (run @ post) = run"
    by simp
  with skipped assms(2) show ?thesis
    by (simp add: re_search_digits_def)
qed

lemma re_search_none:
  assumes "\<forall>c\<in>set s. \<not> is_digit c"
  shows "re_search_digits s = None"
proof -
  from assms have skipped: "dropWhile (\<lambda>c. \<not> is_digit c) s = []"
    by simp
  show ?thesis
    unfolding re_search_digits_def skipped by simp
qed

text \<open>
  Claim C5. \<open>input_to_int\<close> returns the caller's default for every falsy input. For a
  truthy input whose string form contains a run of decimal digits, it returns the
  integer value of the first run: when the string form is \<open>pre @ run @ post\<close> with no
  digit in \<open>pre\<close>, a non-empty all-digit \<open>run\<close>, and \<open>post\<close> empty or starting with a
  non-digit, the result is the integer that \<open>run\<close> denotes. For a truthy input whose
  string form has no digit, it raises the input error.
\<close>

theorem input_to_int_contract:
  "(\<not> py_truthy v \<longrightarrow> input_to_int E v d = Inr d)
   \<and> (py_truthy v \<and> py_str E v = pre @ run @ post
        \<and> (\<forall>c\<in>set pre. \<not> is_digit c) \<and> run \<noteq> [] \<and> (\<forall>c\<in>set run. is_digit c)
        \<and> (post = [] \<or> \<not> is_digit (hd post))
      \<longrightarrow> input_to_int E v d = Inr (PInt (int (digits_val run))))
   \<and> (py_truthy v \<and> (\<forall>c\<in>set (py_str E v). \<not> is_digit c)
      \<longrightarrow> input_to_int E v d = Inl InputException)"
proof (intro conjI impI)
  assume "\<not> py_truthy v"
  then show "input_to_int E v d = Inr d"
    by (simp add: input_to_int_def)
next
  assume h: "py_truthy v \<and> py_str E v = pre @ run @ post
        \<and> (\<forall>c\<in>set pre. \<not> is_digit c) \<and> run \<noteq> [] \<and> (\<forall>c\<in>set run. is_digit c)
        \<and> (post = [] \<or> \<not> is_digit (hd post))"
  then have "re_search_digits (py_str E v) = Some run"
    using re_search_run [of pre run post] by simp
  moreover from h have "int_of_str run = Some (int (digits_val run))"
    by (simp add: int_of_str_digits)
  ultimately show "input_to_int E v d = Inr (PInt (int (digits_val run)))"
    using h by (simp add: input_to_int_def)
next
  assume h: "py_truthy v \<and> (\<forall>c\<in>set (py_str E v). \<not> is_digit c)"
  then have "re_search_digits (py_str E v) = None"
    by (simp add: re_search_none)
  with h show "input_to_int E v d = Inl InputException"
    by (simp add: input_to_int_def)
qed

theorem input_to_int_contract_witness:
  "input_to_int sample_env (PStr []) (PInt 7) = Inr (PInt 7)
   \<and> input_to_int sample_env (PStr ''2-A Second Type'') PNone = Inr (PInt 2)
   \<and> input_to_int sample_env (PStr ''none'') PNone = Inl InputException"
  using input_to_int_contract [where v = "PStr []" and E = sample_env and d = "PInt 7"]
    input_to_int_contract [where v = "PStr ''2-A Second Type''" and E = sample_env
      and pre = "[]" and run = "''2''" and post = "''-A Second Type''" and d = PNone]
    input_to_int_contract [where v = "PStr ''none''" and E = sample_env and d = PNone]
  by (simp add: is_digit_def digits_val_def digit_val_def)

subsection \<open>The ragged-list accessors\<close>

text \<open>
  Claim C6. For every list, integer index and default, \<open>clean_get\<close> and \<open>cleaner_get\<close>
  return the element at the index when the index is in range (from \<open>0\<close> to below
  the length, or negative down to minus the length, counted from the end as Python
  does); for an index out of range they return element 0 of a non-empty list and
  the default for the empty list; and they always return, no exception escapes.
\<close>

theorem clean_get_contract:
  "(0 \<le> i \<and> i < int (length xs)
      \<longrightarrow> clean_get xs i d = Inr (xs ! nat i) \<and> cleaner_get xs i d = Inr (xs ! nat i))
   \<and> (- int (length xs) \<le> i \<and> i < 0
      \<longrightarrow> clean_get xs i d = Inr (xs ! nat (int (length xs) + i))
        \<and> cleaner_get xs i d = Inr (xs ! nat (int (length xs) + i)))
   \<and> ((int (length xs) \<le> i \<or> i < - int (length xs)) \<and> xs \<noteq> []
      \<longrightarrow> clean_get xs i d = Inr (xs ! 0) \<and> cleaner_get xs i d = Inr (xs ! 0))
   \<and> ((int (length xs) \<le> i \<or> i < - int (length xs)) \<and> xs = []
      \<longrightarrow> clean_get xs i d = Inr d \<and> cleaner_get xs i d = Inr d)
   \<and> (\<exists>v. clean_get xs i d = Inr v) \<and> (\<exists>v. cleaner_get xs i d = Inr v)"
  by (auto simp: clean_get_def cleaner_get_def list_getitem_def)

theorem clean_get_contract_witness:
  "clean_get [10, 20, 30 :: int] 1 0 = Inr 20 \<and> cleaner_get [10, 20, 30 :: int] 1 0 = Inr 20
   \<and> clean_get [10, 20, 30 :: int] (- 1) 0 = Inr 30
   \<and> clean_get [10, 20, 30 :: int] 5 0 = Inr 10 \<and> cleaner_get [10, 20, 30 :: int] (- 4) 0 = Inr 10
   \<and> clean_get ([] :: int list) 2 99 = Inr 99 \<and> cleaner_get ([] :: int list) 0 99 = Inr 99"
  using clean_get_contract [of 1 "[10, 20, 30 :: int]" 0]
    clean_get_contract [of "- 1" "[10, 20, 30 :: int]" 0]
    clean_get_contract [of 5 "[10, 20, 30 :: int]" 0]
    clean_get_contract [of "- 4" "[10, 20, 30 :: int]" 0]
    clean_get_contract [of 2 "[] :: int list" 99]
    clean_get_contract [of 0 "[] :: int list" 99]
  by simp

text \<open>
  Claim C10. For a non-empty list of length \<open>n\<close> and an index \<open>i\<close> with
  \<open>-n \<le> i < 0\<close>, both accessors return the element at position \<open>n + i\<close>, a valid
  position counted from the end; the fallback to element 0 or to the default is
  not taken.
\<close>

theorem clean_get_negative_index:
  "xs \<noteq> [] \<Longrightarrow> - int (length xs) \<le> i \<Longrightarrow> i < 0 \<Longrightarrow>
     clean_get xs i d = Inr (xs ! nat (int (length xs) + i))
     \<and> cleaner_get xs i d = Inr (xs ! nat (int (length xs) + i))
     \<and> nat (int (length xs) + i) < length xs"
  by (auto simp: clean_get_def cleaner_get_def list_getitem_def)

theorem clean_get_negative_index_witness:
  "clean_get [10, 20, 30 :: int] (- 2) 0 = Inr 20
   \<and> cleaner_get [10, 20, 30 :: int] (- 2) 0 = Inr 20"
  using clean_get_negative_index [of "[10, 20, 30 :: int]" "- 2" 0]
  by simp

subsection \<open>The memoizing wrapper\<close>

text \<open>
  Claim C7, as amended. When the cache does not yet hold the key and the wrapped
  function returns normally on the first call, two successive calls with the same
  positional arguments invoke the wrapped function exactly once, and the second
  call returns the value the first one stored, whatever the wrapped function
  would return by then.
\<close>

theorem memoize_cold_key_once:
  assumes "sticky s args = None" and "func args kwargs s = (Inr rv, s1)"
  shows "two_calls func args kwargs kwargs s
           = (Inr rv, Inr rv, [(args, kwargs)], s1\<lparr>sticky := (sticky s1)(args \<mapsto> rv)\<rparr>)"
  using assms by (simp add: two_calls_def wrapper_def)

theorem memoize_cold_key_once_witness:
  "two_calls demo_func [1, 2] [] [] cold_session
     = (Inr 3, Inr 3, [([1, 2], [])], \<lparr>sticky = [[1, 2] \<mapsto> 3], outside = 1\<rparr>)
   \<and> fst (demo_func [1, 2] [] \<lparr>sticky = [[1, 2] \<mapsto> 3], outside = 1\<rparr>) = Inr 4"
  using memoize_cold_key_once [of cold_session "[1, 2]" demo_func "[]" 3
      "\<lparr>sticky = Map.empty, outside = 1\<rparr>"]
  by (simp add: demo_func_def cold_session_def)

text \<open>
  Claim C7 as stated, for any starting cache state, fails: when the cache already
  holds a value under the key, neither call invokes the wrapped function, and both
  return the value found there.
\<close>

theorem memoize_warm_key_counterexample:
  "two_calls demo_func [1, 2] [] [] warm_session = (Inr 7, Inr 7, [], warm_session)"
  by (simp add: two_calls_def wrapper_def warm_session_def)

text \<open>
  Claim C9, as amended. The cache key is built from the positional arguments only.
  Whenever a first call returns a value, a second call with the same positional
  arguments and any keyword arguments returns that value without invoking the
  wrapped function and leaves the session as it is; and when the key was not
  cached before the first call, that value is the one the wrapped function
  computed with the first call's keyword arguments.
\<close>

theorem memoize_key_ignores_kwargs:
  assumes "wrapper func args kwargs1 s = (Inr v, log1, s1)"
  shows "wrapper func args kwargs2 s1 = (Inr v, [], s1)
     \<and> (sticky s args = None \<longrightarrow> fst (func args kwargs1 s) = Inr v \<and> log1 = [(args, kwargs1)])"
  using assms by (auto simp: wrapper_def split: option.splits sum.splits prod.splits)

theorem memoize_key_ignores_kwargs_witness:
  "wrapper demo_func [1, 2] [(''scale'', 10)] cold_session
     = (Inr 13, [([1, 2], [(''scale'', 10)])], \<lparr>sticky = [[1, 2] \<mapsto> 13], outside = 1\<rparr>)
   \<and> wrapper demo_func [1, 2] [(''scale'', 500)] \<lparr>sticky = [[1, 2] \<mapsto> 13], outside = 1\<rparr>
     = (Inr 13, [], \<lparr>sticky = [[1, 2] \<mapsto> 13], outside = 1\<rparr>)"
proof -
  have first: "wrapper demo_func [1, 2] [(''scale'', 10)] cold_session
     = (Inr 13, [([1, 2], [(''scale'', 10)])], \<lparr>sticky = [[1, 2] \<mapsto> 13], outside = 1\<rparr>)"
    by (simp add: wrapper_def demo_func_def cold_session_def)
  from memoize_key_ignores_kwargs [OF first, of "[(''scale'', 500)]"] first
  show ?thesis by simp
qed

text \<open>
  Claim C9 as stated, for any two calls, fails in two ways. With the key already
  cached, both calls return the cached 7, which is not the 13 that the wrapped
  function computes with the first call's keyword arguments. And when the wrapped
  function raises on the first call, nothing is stored, so the second call does
  invoke it, with the second call's keyword arguments.
\<close>

theorem memoize_kwargs_counterexample:
  "two_calls demo_func [1, 2] [(''scale'', 10)] [(''scale'', 500)] warm_session
     = (Inr 7, Inr 7, [], warm_session)
   \<and> fst (demo_func [1, 2] [(''scale'', 10)] warm_session) = Inr 13
   \<and> two_calls flaky_func [1, 2] [(''scale'', 10)] [(''scale'', 500)] cold_session
     = (Inl ValueError, Inr 504,
        [([1, 2], [(''scale'', 10)]), ([1, 2], [(''scale'', 500)])],
        \<lparr>sticky = [[1, 2] \<mapsto> 504], outside = 2\<rparr>)"
  by (simp add: two_calls_def wrapper_def warm_session_def cold_session_def demo_func_def
      flaky_func_def)

section \<open>Properties of validators.py\<close>

lemmas unit_validate_defs =
  UnitM_validate_def UnitM2_validate_def UnitMM_validate_def UnitW_MK_validate_def
  UnitW_M2K_validate_def UnitW_K_validate_def UnitDeltaC_validate_def UnitDegreeC_validate_def
  UnitMeterPerSecond_validate_def UnitWH_M3_validate_def UnitKWH_validate_def
  UnitKWH_M2_validate_def UnitW_M2_validate_def UnitM3_S_validate_def UnitKW_validate_def
  UnitW_validate_def UnitKG_M2_validate_def UnitCost_M2_validate_def

subsection \<open>What an accepted value satisfies\<close>

lemma fsub_zero: "fsub v (Fin 0) = v"
  by (cases v) simp_all

lemma flt_irrefl_zero: "(f \<noteq> Fin 0 \<and> flt f (Fin 0)) = flt f (Fin 0)"
  by (cases f) auto

















text \<open>
  The last class of the file returns \<open>None\<close> for a value that it parsed and converted.
\<close>

lemma UnitCost_KWH_returns_none:
  "validate sample_env \<lparr>storage_name = ''x'', default_val = PNone, kind = UnitCost_KWH\<rparr>
       ''x'' (PStr ''20'') PNone = Inr PNone"
  by (simp add: sample_env_def sample_parse_def sample_convert_def unit_or_def int_of_str_def
      strip_def is_space_def unsigned_of_str_def is_digit_def digits_val_def digit_val_def
      validate_def UnitCost_KWH_validate_def unit_convert_def)

subsection \<open>The new value is absent\<close>

text \<open>
  Claim C2, as amended. For every validator except \<open>NotNone\<close>, a call with the new
  value absent first attempts to coerce the configured default and returns the
  coerced default when that succeeds; when the coercion fails it returns the old
  value as it is. It never raises: when there is neither a usable default nor a
  previous value, the call returns \<open>None\<close>.
\<close>

theorem validate_none_returns_default_or_old:
  assumes "kind self \<noteq> NotNone"
  shows "validate E self name PNone old_value
           = Inr (case coerce_default E (kind self) (default_val self) of
                    Some d \<Rightarrow> d
                  | None \<Rightarrow> old_value)
     \<and> (coerce_default E (kind self) (default_val self) = None
          \<longrightarrow> validate E self name PNone PNone = Inr PNone)"
  using assms
  by (cases "kind self")
    (simp_all add: validate_def unit_validate_defs HBName_validate_def
      IntegerNonZero_validate_def IntegerPositiveValueOrZero_validate_def Float_validate_def
      FloatNonZero_validate_def FloatPositiveValue_validate_def FloatPercentage_validate_def
      FloatMax24_validate_def unit_validate_any_def unit_validate_positive_def
      UnitCost_KWH_validate_def split: option.splits sum.splits)

theorem validate_none_returns_default_or_old_witness:
  "validate sample_env \<lparr>storage_name = ''n'', default_val = PStr ''3'', kind = IntegerNonZero\<rparr>
       ''n'' PNone PNone = Inr (PInt 3)
   \<and> validate sample_env \<lparr>storage_name = ''n'', default_val = PStr ''x'', kind = IntegerNonZero\<rparr>
       ''n'' PNone (PInt 8) = Inr (PInt 8)
   \<and> validate sample_env \<lparr>storage_name = ''h'', default_val = PStr ''x'', kind = FloatMax24\<rparr>
       ''h'' PNone PNone = Inr PNone"
  using validate_none_returns_default_or_old [of
      "\<lparr>storage_name = ''h'', default_val = PStr ''x'', kind = FloatMax24\<rparr>"
      sample_env "''h''" PNone]
    validate_none_returns_default_or_old [of
      "\<lparr>storage_name = ''n'', default_val = PStr ''3'', kind = IntegerNonZero\<rparr>"
      sample_env "''n''" PNone]
    validate_none_returns_default_or_old [of
      "\<lparr>storage_name = ''n'', default_val = PStr ''x'', kind = IntegerNonZero\<rparr>"
      sample_env "''n''" "PInt 8"]
  by (simp add: int_of_str_def strip_def is_space_def unsigned_of_str_def is_digit_def
      digits_val_def digit_val_def sample_env_def)

text \<open>
  Claim C2 as stated fails: a \<open>Float\<close> descriptor without a default and without a
  previous value returns \<open>None\<close> for the new value \<open>None\<close>; it does not raise.
\<close>

theorem validate_none_without_default_counterexample:
  "validate sample_env \<lparr>storage_name = ''x'', default_val = PNone, kind = Float\<rparr>
       ''x'' PNone PNone = Inr PNone"
  by (simp add: validate_def Float_validate_def)

text \<open>
  \<open>NotNone\<close> is the one class that raises when both the new and the old value are
  absent; it has no default step.
\<close>

lemma NotNone_raises_when_both_absent:
  "validate E \<lparr>storage_name = n, default_val = d, kind = NotNone\<rparr> name PNone PNone
     = Inl ValueError"
  by (simp add: validate_def NotNone_validate_def)

subsection \<open>The non-zero float check\<close>

text \<open>
  Claim C3. For every input other than \<open>None\<close> that coerces to a float \<open>v\<close>,
  \<open>FloatNonZero.validate\<close> raises exactly when \<open>v - 0.0 < tolerance\<close> with the
  tolerance 0.0001, which is the same as \<open>v < 0.0001\<close>: every value below the
  tolerance is rejected, all the negative values among them, and every other
  value is returned as coerced.
\<close>

theorem FloatNonZero_rejects_below_tolerance:
  assumes "new_value \<noteq> PNone" and "py_float E new_value = Some v"
  shows "((\<exists>e. FloatNonZero_validate E self name new_value old_value = Inl e)
            \<longleftrightarrow> flt (fsub v (Fin 0)) FloatNonZero_tolerance)
     \<and> (flt (fsub v (Fin 0)) FloatNonZero_tolerance \<longleftrightarrow> flt v (Fin (1 / 10000)))
     \<and> (\<not> flt v (Fin (1 / 10000))
          \<longrightarrow> FloatNonZero_validate E self name new_value old_value = Inr (PFloat v))
     \<and> (\<forall>r. v = Fin r \<and> r < 0
          \<longrightarrow> FloatNonZero_validate E self name new_value old_value = Inl ValueError)"
  using assms
  by (auto simp: FloatNonZero_validate_def FloatNonZero_tolerance_def fsub_zero)

theorem FloatNonZero_rejects_below_tolerance_witness:
  "FloatNonZero_validate sample_env \<lparr>storage_name = ''x'', default_val = PNone, kind = FloatNonZero\<rparr>
       ''x'' (PFloat (Fin (- 5))) PNone = Inl ValueError
   \<and> FloatNonZero_validate sample_env \<lparr>storage_name = ''x'', default_val = PNone, kind = FloatNonZero\<rparr>
       ''x'' (PInt 2) PNone = Inr (PFloat (Fin 2))"
  using FloatNonZero_rejects_below_tolerance [of "PFloat (Fin (- 5))" sample_env "Fin (- 5)"
      "\<lparr>storage_name = ''x'', default_val = PNone, kind = FloatNonZero\<rparr>" "''x''" PNone]
    FloatNonZero_rejects_below_tolerance [of "PInt 2" sample_env "Fin 2"
      "\<lparr>storage_name = ''x'', default_val = PNone, kind = FloatNonZero\<rparr>" "''x''" PNone]
  by (simp add: float_int_bound_def)

subsection \<open>The percentage pre-step\<close>



subsection \<open>Unit conversion\<close>

text \<open>
  Claim C8, as amended. For every unit validator (\<open>UnitCost_KWH\<close> left aside) and
  every value other than \<open>None\<close> whose string form the external parser reads as a
  magnitude that coerces to the float \<open>v\<close>, together with a unit token or none:
  the result is that of one application of the external conversion to \<open>v\<close>, from
  the unit read to the canonical unit \<open>u\<close>. With no unit token, an empty one, or
  the canonical unit itself, this is the identity conversion \<open>convert(v, u, u)\<close>;
  with another token \<open>t\<close> it is \<open>convert(v, t, u)\<close>. The converted result is
  returned, except that the classes documented as positive raise when it is
  negative. In particular, when the external converter maps \<open>v\<close> to itself on equal
  units, the magnitude read is returned unchanged. Here \<open>v\<close> is the magnitude as the
  parser reads it from the string form; nothing is stated about a value whose
  string form the parser reads differently or does not read.
\<close>

theorem unit_validate_converts_once:
  assumes "canonical_unit (kind self) \<noteq> []" and "kind self \<noteq> UnitCost_KWH"
    and "new_value \<noteq> PNone"
    and "parse_input E (py_str E new_value) = Inr (magnitude, token)"
    and "py_float E magnitude = Some v"
  shows "validate E self name new_value old_value
           = (case convert E v (unit_or token (canonical_unit (kind self)))
                     (canonical_unit (kind self)) of
                Inl e \<Rightarrow> Inl e
              | Inr r \<Rightarrow>
                  if sign_checked (kind self) \<and> flt r (Fin 0) then Inl ValueError
                  else Inr (PFloat r))
     \<and> (token = None \<or> token = Some [] \<or> token = Some (canonical_unit (kind self))
          \<longrightarrow> unit_or token (canonical_unit (kind self)) = canonical_unit (kind self))
     \<and> (\<forall>t. token = Some t \<and> t \<noteq> []
          \<longrightarrow> unit_or token (canonical_unit (kind self)) = t)
     \<and> ((token = None \<or> token = Some [] \<or> token = Some (canonical_unit (kind self)))
          \<and> convert E v (canonical_unit (kind self)) (canonical_unit (kind self)) = Inr v
          \<and> \<not> (sign_checked (kind self) \<and> flt v (Fin 0))
          \<longrightarrow> validate E self name new_value old_value = Inr (PFloat v))"
proof -
  let ?u = "canonical_unit (kind self)"
  have converted: "validate E self name new_value old_value
           = (case convert E v (unit_or token ?u) ?u of
                Inl e \<Rightarrow> Inl e
              | Inr r \<Rightarrow>
                  if sign_checked (kind self) \<and> flt r (Fin 0) then Inl ValueError
                  else Inr (PFloat r))"
    using assms
    by (cases "kind self")
      (auto simp: validate_def unit_validate_defs unit_validate_any_def
        unit_validate_positive_def unit_convert_def flt_irrefl_zero
        split: sum.splits)
  have canonical: "token = None \<or> token = Some [] \<or> token = Some ?u
          \<longrightarrow> unit_or token ?u = ?u"
    by (auto simp: unit_or_def)
  have tagged: "\<forall>t. token = Some t \<and> t \<noteq> [] \<longrightarrow> unit_or token ?u = t"
    by (simp add: unit_or_def)
  have unchanged: "(token = None \<or> token = Some [] \<or> token = Some ?u)
          \<and> convert E v ?u ?u = Inr v
          \<and> \<not> (sign_checked (kind self) \<and> flt v (Fin 0))
          \<longrightarrow> validate E self name new_value old_value = Inr (PFloat v)"
    using converted canonical by auto
  from converted canonical tagged unchanged show ?thesis
    by (intro conjI)
qed

theorem unit_validate_converts_once_witness:
  "validate sample_env \<lparr>storage_name = ''x'', default_val = PNone, kind = UnitM\<rparr>
       ''x'' (PStr ''20'') PNone = Inr (PFloat (Fin 20))
   \<and> validate sample_env \<lparr>storage_name = ''x'', default_val = PNone, kind = UnitM\<rparr>
       ''x'' (PStr ''2000 MM'') PNone = Inr (PFloat (Fin 2))"
  using unit_validate_converts_once [where E = sample_env and new_value = "PStr ''20''"
      and self = "\<lparr>storage_name = ''x'', default_val = PNone, kind = UnitM\<rparr>"
      and magnitude = "PStr ''20''" and token = None and v = "Fin 20"
      and name = "''x''" and old_value = PNone]
    unit_validate_converts_once [where E = sample_env and new_value = "PStr ''2000 MM''"
      and self = "\<lparr>storage_name = ''x'', default_val = PNone, kind = UnitM\<rparr>"
      and magnitude = "PStr ''2000''" and token = "Some ''MM''" and v = "Fin 2000"
      and name = "''x''" and old_value = PNone]
  by (simp add: sample_env_def sample_parse_def sample_convert_def unit_or_def int_of_str_def
      strip_def is_space_def unsigned_of_str_def is_digit_def digits_val_def digit_val_def)

text \<open>
  Claim C8 as stated, for every float value, fails on the classes that check the
  sign: -5 without a unit token is converted by the identity to -5, and
  \<open>UnitW.validate\<close> raises instead of returning it.
\<close>

theorem unit_validate_negative_counterexample:
  "parse_input sample_env (py_str sample_env (PStr ''-5'')) = Inr (PStr ''-5'', None)
   \<and> py_float sample_env (PStr ''-5'') = Some (Fin (- 5))
   \<and> convert sample_env (Fin (- 5)) ''W'' ''W'' = Inr (Fin (- 5))
   \<and> validate sample_env \<lparr>storage_name = ''x'', default_val = PNone, kind = UnitW\<rparr>
       ''x'' (PStr ''-5'') PNone = Inl ValueError"
  by (simp add: sample_env_def sample_parse_def sample_convert_def unit_or_def int_of_str_def
      strip_def is_space_def unsigned_of_str_def is_digit_def digits_val_def digit_val_def
      validate_def UnitW_validate_def unit_validate_positive_def unit_convert_def)

text \<open>
  What a unit validator returns is the parser's reading of the string form, not the
  value given: under a parser that answers 42 for every string, and the identity
  converter, \<open>UnitM.validate\<close> returns 42 for the value 7.
\<close>

lemma unit_validate_returns_parsed_magnitude:
  assumes "parse_input E = (\<lambda>s. Inr (PInt 42, None))" and "convert E = (\<lambda>v a b. Inr v)"
  shows "validate E \<lparr>storage_name = n, default_val = d, kind = UnitM\<rparr> name (PInt 7) old_value
           = Inr (PFloat (Fin 42))"
  using assms
  by (simp add: validate_def UnitM_validate_def unit_validate_any_def unit_convert_def
      float_int_bound_def)

end
